theory Spec2Isabelle
  imports Main "HOL-Library.Sublist" "HOL-Library.Multiset" "HOL-Library.AList"
begin

section \<open>JavaScript strings\<close>

text \<open>
  Strings are byte strings. The JavaScript string functions the sources call are modelled
  on ASCII: \<open>toLowerCase\<close> and \<open>toUpperCase\<close> change the letters A-Z and a-z only
  (each is looked up in the alphabet), and white space is the ASCII white space (tab, line
  feed, vertical tab, form feed, carriage return, space).
\<close>

definition isUpper :: "char \<Rightarrow> bool" where
  "isUpper c = (c \<in> set ''ABCDEFGHIJKLMNOPQRSTUVWXYZ'')"

definition isLower :: "char \<Rightarrow> bool" where
  "isLower c = (c \<in> set ''abcdefghijklmnopqrstuvwxyz'')"

definition isDigit :: "char \<Rightarrow> bool" where
  "isDigit c = (c \<in> set ''0123456789'')"

definition lower_char :: "char \<Rightarrow> char" where
  "lower_char c =
    (case map_of (zip ''ABCDEFGHIJKLMNOPQRSTUVWXYZ'' ''abcdefghijklmnopqrstuvwxyz'') c of
       None \<Rightarrow> c | Some l \<Rightarrow> l)"

definition upper_char :: "char \<Rightarrow> char" where
  "upper_char c =
    (case map_of (zip ''abcdefghijklmnopqrstuvwxyz'' ''ABCDEFGHIJKLMNOPQRSTUVWXYZ'') c of
       None \<Rightarrow> c | Some u \<Rightarrow> u)"

definition toLowerCase :: "string \<Rightarrow> string" where
  "toLowerCase s = map lower_char s"

definition toUpperCase :: "string \<Rightarrow> string" where
  "toUpperCase s = map upper_char s"

definition isWhiteSpace :: "char \<Rightarrow> bool" where
  "isWhiteSpace c = (c \<in> set [CHR 0x09, CHR 0x0A, CHR 0x0B, CHR 0x0C, CHR 0x0D, CHR 0x20])"

definition trim :: "string \<Rightarrow> string" where
  "trim s = rev (dropWhile isWhiteSpace (rev (dropWhile isWhiteSpace s)))"

text \<open>\<open>s.includes(sub)\<close>: \<open>sub\<close> occurs in \<open>s\<close> as a contiguous run.\<close>

fun str_includes :: "string \<Rightarrow> string \<Rightarrow> bool" where
  "str_includes [] sub = (sub = [])"
| "str_includes (c # cs) sub = (prefix sub (c # cs) \<or> str_includes cs sub)"

text \<open>
  \<open>const normalize = (value) => value.replace(/"/g, '').trim().toLowerCase()\<close>
  (the same helper is declared in introspect.ts, validate.ts and tenant-enforce.ts).
\<close>

definition normalize_s :: "string \<Rightarrow> string" where
  "normalize_s v = toLowerCase (trim (filter (\<lambda>c. c \<noteq> CHR 0x22) v))"

section \<open>The schema model (src/schema/introspect.ts)\<close>

text \<open>
  A JavaScript \<open>Map\<close> is an association list in insertion order: \<open>get\<close> is
  \<^const>\<open>map_of\<close>, \<open>set\<close> is \<^const>\<open>AList.update\<close> (an existing key keeps its
  place and takes the new value, a new key goes to the end). A \<open>Set\<close> is the list of
  its elements in insertion order; \<open>s.has(x)\<close> is \<open>x \<in> set s\<close>.
\<close>

definition setOf :: "'a list \<Rightarrow> 'a list" where
  "setOf xs = foldl (\<lambda>s x. if x \<in> set s then s else s @ [x]) [] xs"

record SchemaTable =
  schema :: string
  name :: string
  key :: string
  isView :: bool
  columns :: "string list"
  columnsLower :: "string list"
  columnsByLower :: "(string \<times> string) list"
  hasOrganizationId :: bool

record SchemaSnapshot =
  dialect :: string
  refreshedAtIso :: string
  tables :: "SchemaTable list"
  byKey :: "(string \<times> SchemaTable) list"
  byName :: "(string \<times> SchemaTable list) list"

text \<open>
  \<open>resolveTable(snapshot, tableName, schemaName?)\<close>. The optional argument is
  \<open>None\<close> when it is left out; \<open>if (schemaName)\<close> is false for the empty string too.
\<close>

definition resolveTable :: "SchemaSnapshot \<Rightarrow> string \<Rightarrow> string option \<Rightarrow> SchemaTable option" where
  "resolveTable snapshot tableName schemaName =
    (let normalizedTable = normalize_s tableName in
     if schemaName \<noteq> None \<and> schemaName \<noteq> Some []
     then map_of (byKey snapshot) (normalize_s (the schemaName) @ ''.'' @ normalizedTable)
     else
       (let candidates = (case map_of (byName snapshot) normalizedTable of
                            Some cs \<Rightarrow> cs | None \<Rightarrow> [])
        in if length candidates = 0 then None
           else if length candidates = 1 then Some (hd candidates)
           else find (\<lambda>candidate. normalize_s (schema candidate) = ''public'') candidates))"

definition canonicalColumnName :: "SchemaTable \<Rightarrow> string \<Rightarrow> string option" where
  "canonicalColumnName table normalizedColumnName = map_of (columnsByLower table) normalizedColumnName"

subsection \<open>Schema introspection\<close>

text \<open>
  \<open>introspectSchema\<close> reads two result sets from the database and builds the snapshot
  from them. The model takes the rows of the two queries (and the time stamp) as
  arguments; everything after the queries is the source's code.
\<close>

record RowKey =
  table_schema :: string
  table_name :: string

record TableRow = RowKey +
  table_type :: string

record ColumnRow = RowKey +
  column_name :: string
  ordinal_position :: int

text \<open>
  \<open>if (!m.has(k)) m.set(k, []); m.get(k)?.push(v)\<close>: the list stored under \<open>k\<close>
  grows by \<open>v\<close>; a new key is appended to the map.
\<close>

definition pushTo :: "('k \<times> 'v list) list \<Rightarrow> 'k \<Rightarrow> 'v \<Rightarrow> ('k \<times> 'v list) list" where
  "pushTo m k v = AList.update k ((case map_of m k of Some xs \<Rightarrow> xs | None \<Rightarrow> []) @ [v]) m"

definition rowKey :: "'a RowKey_scheme \<Rightarrow> string" where
  "rowKey row = normalize_s (table_schema row) @ ''.'' @ normalize_s (table_name row)"

definition columnsByTable :: "ColumnRow list \<Rightarrow> (string \<times> string list) list" where
  "columnsByTable rows = foldl (\<lambda>m row. pushTo m (rowKey row) (column_name row)) [] rows"

definition buildColumnsByLower :: "string list \<Rightarrow> (string \<times> string) list" where
  "buildColumnsByLower cols = foldl (\<lambda>m column. AList.update (normalize_s column) column m) [] cols"

definition makeTable :: "(string \<times> string list) list \<Rightarrow> TableRow \<Rightarrow> SchemaTable" where
  "makeTable byTable row =
    (let k = rowKey row;
         cols = (case map_of byTable k of Some cs \<Rightarrow> cs | None \<Rightarrow> []);
         colsLower = setOf (map normalize_s cols)
     in \<lparr> schema = table_schema row,
          name = table_name row,
          key = k,
          isView = (toUpperCase (table_type row) = ''VIEW''),
          columns = cols,
          columnsLower = colsLower,
          columnsByLower = buildColumnsByLower cols,
          hasOrganizationId = (''organizationid'' \<in> set colsLower) \<rparr>)"

definition introspectSchema :: "string \<Rightarrow> TableRow list \<Rightarrow> ColumnRow list \<Rightarrow> SchemaSnapshot" where
  "introspectSchema now tableRows columnRows =
    (let ts = map (makeTable (columnsByTable columnRows)) tableRows
     in \<lparr> dialect = ''PostgreSQL'',
          refreshedAtIso = now,
          tables = ts,
          byKey = foldl (\<lambda>m t. AList.update (key t) t m) [] ts,
          byName = foldl (\<lambda>m t. pushTo m (normalize_s (name t)) t) [] ts \<rparr>)"

section \<open>Validation errors (src/sql/errors.ts)\<close>

text \<open>
  A \<open>SqlValidationError\<close> is told apart by its \<open>code\<close>; the message is not
  modelled. \<open>SERIALIZER_EXCEPTION\<close> stands for an exception of the parser library's
  \<open>sqlify\<close>, which the source does not catch.
\<close>

datatype error =
    SQL_SEMICOLON_NOT_ALLOWED | SQL_COMMENTS_NOT_ALLOWED | SQL_DISALLOWED_KEYWORD
  | SQL_ROW_LOCK_NOT_ALLOWED | SQL_SIDE_EFFECT_FUNCTION
  | SQL_PARSE_ERROR | SQL_MULTI_STATEMENT | SQL_NOT_SELECT | SQL_CTE_NOT_SUPPORTED
  | SQL_SELECT_INTO_NOT_ALLOWED
  | SQL_JOIN_UNSUPPORTED | SQL_FROM_UNSUPPORTED | SQL_SUBQUERY_NOT_SUPPORTED
  | SQL_TABLE_MISSING | SQL_TABLE_UNKNOWN
  | SQL_PARAMETER_NOT_ALLOWED | SQL_COLUMN_UNSUPPORTED | SQL_WILDCARD_NOT_ALLOWED
  | SQL_SENSITIVE_COLUMN | SQL_TABLE_ALIAS_UNKNOWN | SQL_COLUMN_UNKNOWN
  | SQL_COLUMN_NO_SOURCE | SQL_COLUMN_AMBIGUOUS
  | SQL_OFFSET_NOT_ALLOWED | SQL_LIMIT_NOT_NUMERIC | SQL_LIMIT_INVALID
  | SERIALIZER_EXCEPTION

section \<open>The read-only lexical guard (src/sql/read-only-safety.ts)\<close>

text \<open>
  The four regular expressions are matched by hand-written scanners. \<open>\b\<close> is the
  boundary between a word character \<open>[A-Za-z0-9_]\<close> and anything else (or an end of
  the string); \<open>\s\<close> is white space. For \<open>/i\<close> the scanners run over the text in
  lower case and compare it with the patterns' lower-case letters: a letter is a word
  character in either case, and no letter is white space or a parenthesis.
\<close>

definition isWordChar :: "char \<Rightarrow> bool" where
  "isWordChar c = (isUpper c \<or> isLower c \<or> isDigit c \<or> c = CHR ''_'')"

text \<open>\<open>\b\<close> after a word character: the rest is empty or starts with a non-word character.\<close>

definition boundaryAt :: "string \<Rightarrow> bool" where
  "boundaryAt r = (case r of [] \<Rightarrow> True | c # _ \<Rightarrow> \<not> isWordChar c)"

text \<open>
  \<open>/\bX/.test(s)\<close> where \<open>X\<close> starts with a word character: some position of \<open>s\<close>
  that does not follow a word character satisfies \<open>here\<close>. The flag \<open>prevWord\<close> says
  whether the character before the current position is a word character.
\<close>

fun scanFrom :: "(string \<Rightarrow> bool) \<Rightarrow> bool \<Rightarrow> string \<Rightarrow> bool" where
  "scanFrom here prevWord [] = False"
| "scanFrom here prevWord (c # cs) =
    (if prevWord then scanFrom here (isWordChar c) cs
     else if here (c # cs) then True
     else scanFrom here (isWordChar c) cs)"

definition disallowedKeywords :: "string list" where
  "disallowedKeywords =
    [''insert'', ''update'', ''delete'', ''drop'', ''alter'', ''truncate'', ''create'', ''grant'',
     ''revoke'', ''exec'', ''execute'', ''copy'', ''call'', ''do'', ''merge'', ''replace'', ''upsert'',
     ''vacuum'', ''analyze'', ''reindex'', ''cluster'', ''discard'', ''checkpoint'']"

text \<open>\<open>/\b(insert|update|...|checkpoint)\b/i\<close>\<close>

definition disallowedKeywordPattern :: "string \<Rightarrow> bool" where
  "disallowedKeywordPattern s =
    scanFrom (\<lambda>r. \<exists>w \<in> set disallowedKeywords.
                 if prefix w r then boundaryAt (drop (length w) r) else False)
      False (toLowerCase s)"

text \<open>
  The words \<open>ws\<close>, separated by \<open>\s+\<close>, stand at the head of \<open>s\<close>; the result is what
  follows them. After \<open>\s+\<close> comes a letter, so taking all the white space loses no match.
\<close>

fun matchWordSeq :: "string list \<Rightarrow> string \<Rightarrow> string option" where
  "matchWordSeq [] s = Some s"
| "matchWordSeq [w] s = (if prefix w s then Some (drop (length w) s) else None)"
| "matchWordSeq (w # w' # ws) s =
    (if prefix w s
     then (case drop (length w) s of
             [] \<Rightarrow> None
           | c # r \<Rightarrow> if isWhiteSpace c then matchWordSeq (w' # ws) (dropWhile isWhiteSpace r) else None)
     else None)"

definition rowLockClauses :: "string list list" where
  "rowLockClauses =
    [[''for'', ''update''], [''for'', ''share''], [''for'', ''no'', ''key'', ''update''],
     [''for'', ''key'', ''share'']]"

text \<open>\<open>/\bfor\s+(update|share|no\s+key\s+update|key\s+share)\b/i\<close>\<close>

definition rowLockPattern :: "string \<Rightarrow> bool" where
  "rowLockPattern s =
    scanFrom (\<lambda>r. \<exists>ws \<in> set rowLockClauses.
                 (case matchWordSeq ws r of None \<Rightarrow> False | Some rest \<Rightarrow> boundaryAt rest))
      False (toLowerCase s)"

definition sideEffectFunctions :: "string list" where
  "sideEffectFunctions =
    [''nextval'', ''setval'', ''pg_advisory_lock'', ''pg_advisory_xact_lock'', ''pg_sleep'']"

text \<open>\<open>/\b(nextval|setval|pg_advisory_lock|pg_advisory_xact_lock|pg_sleep)\s*\(/i\<close>\<close>

definition sideEffectFunctionPattern :: "string \<Rightarrow> bool" where
  "sideEffectFunctionPattern s =
    scanFrom (\<lambda>r. \<exists>w \<in> set sideEffectFunctions.
                 if prefix w r
                 then (case dropWhile isWhiteSpace (drop (length w) r) of
                         [] \<Rightarrow> False | c # _ \<Rightarrow> c = CHR ''('')
                 else False)
      False (toLowerCase s)"

text \<open>\<open>/--|\/\*/\<close>\<close>

definition sqlCommentPattern :: "string \<Rightarrow> bool" where
  "sqlCommentPattern s = (str_includes s ''--'' \<or> str_includes s ''/*'')"

text \<open>\<open>assertReadOnlySqlTokens\<close>: \<open>None\<close> when nothing is thrown.\<close>

definition assertReadOnlySqlTokens :: "string \<Rightarrow> error option" where
  "assertReadOnlySqlTokens sql =
    (if str_includes sql '';'' then Some SQL_SEMICOLON_NOT_ALLOWED
     else if sqlCommentPattern sql then Some SQL_COMMENTS_NOT_ALLOWED
     else if disallowedKeywordPattern sql then Some SQL_DISALLOWED_KEYWORD
     else if rowLockPattern sql then Some SQL_ROW_LOCK_NOT_ALLOWED
     else if sideEffectFunctionPattern sql then Some SQL_SIDE_EFFECT_FUNCTION
     else None)"

section \<open>The syntax tree\<close>

text \<open>
  The sources treat the parser's tree as \<open>Record<string, unknown>\<close>: a JavaScript value.
  An object is the list of its properties in insertion order; reading a property that is
  not there gives \<open>undefined\<close>, here \<open>None\<close>. Numbers are integers. The tree is a tree:
  no object occurs in it twice, so changing a node in place is rebuilding the tree.
\<close>

datatype json =
    JNull | JBool bool | JNum int | JStr string | JArr "json list" | JObj "(string \<times> json) list"

type_synonym node = "(string \<times> json) list"

fun truthy :: "json \<Rightarrow> bool" where
  "truthy JNull = False"
| "truthy (JBool b) = b"
| "truthy (JNum n) = (n \<noteq> 0)"
| "truthy (JStr s) = (s \<noteq> [])"
| "truthy (JArr xs) = True"
| "truthy (JObj fs) = True"

definition truthyO :: "json option \<Rightarrow> bool" where
  "truthyO v = (case v of None \<Rightarrow> False | Some j \<Rightarrow> truthy j)"

text \<open>\<open>v && typeof v === 'object'\<close>: an object or an array.\<close>

fun isObject :: "json \<Rightarrow> bool" where
  "isObject (JArr xs) = True"
| "isObject (JObj fs) = True"
| "isObject v = False"

definition getProp :: "node \<Rightarrow> string \<Rightarrow> json option" where
  "getProp nd k = map_of nd k"

definition setProp :: "node \<Rightarrow> string \<Rightarrow> json \<Rightarrow> node" where
  "setProp nd k v = AList.update k v nd"

text \<open>
  Reading a named property of any value. Of the properties the sources read by name
  (\<open>type\<close>, \<open>table\<close>, \<open>column\<close>, \<open>expr\<close>, \<open>value\<close>, ...) only an object has any.
\<close>

fun propOf :: "json \<Rightarrow> string \<Rightarrow> json option" where
  "propOf (JObj fs) k = map_of fs k"
| "propOf v k = None"

text \<open>\<open>typeof v === 'string' ? v : null\<close>\<close>

fun stringOf :: "json option \<Rightarrow> string option" where
  "stringOf (Some (JStr s)) = Some s"
| "stringOf v = None"

section \<open>Identifiers (src/sql/identifiers.ts)\<close>

definition stripOuterQuotes :: "string \<Rightarrow> string" where
  "stripOuterQuotes v =
    (if prefix [CHR 0x22] v \<and> suffix [CHR 0x22] v \<and> length v \<ge> 2 then butlast (tl v) else v)"

definition toAstIdentifier :: "string \<Rightarrow> string" where
  "toAstIdentifier identifier =
    (let raw = stripOuterQuotes (trim identifier);
         escaped = concat (map (\<lambda>c. if c = CHR 0x22 then [CHR 0x22, CHR 0x22] else [c]) raw)
     in [CHR 0x22] @ escaped @ [CHR 0x22])"

section \<open>Pagination (src/sql/paginate.ts)\<close>

record PaginationRewriteResult =
  displayLimit :: int
  fetchLimit :: int

text \<open>
  \<open>Number(s)\<close> on a string, for the integers: an optional sign and decimal digits, white
  space around them allowed, and the empty string is 0. Every other string is taken as
  \<open>NaN\<close> (\<open>None\<close>); hexadecimal, fractional and exponent forms are not modelled.
\<close>

definition digitsToInt :: "string \<Rightarrow> int" where
  "digitsToInt ds = foldl (\<lambda>acc c. 10 * acc + (int (of_char c) - 48)) 0 ds"

definition numberOfString :: "string \<Rightarrow> int option" where
  "numberOfString s =
    (let t = trim s in
     if t = [] then Some 0
     else if list_all isDigit t then Some (digitsToInt t)
     else (case t of
             c # ds \<Rightarrow>
               if ds \<noteq> [] \<and> list_all isDigit ds \<and> c = CHR ''-'' then Some (- digitsToInt ds)
               else if ds \<noteq> [] \<and> list_all isDigit ds \<and> c = CHR ''+'' then Some (digitsToInt ds)
               else None
           | [] \<Rightarrow> None))"

text \<open>\<open>toInteger\<close>: \<open>Math.trunc\<close> changes no integer.\<close>

fun toInteger :: "json option \<Rightarrow> int option" where
  "toInteger (Some (JStr s)) = numberOfString s"
| "toInteger (Some (JNum n)) = Some n"
| "toInteger v = None"

text \<open>
  \<open>limitNode.value?.length ?? 0\<close> and \<open>limitNode?.value?.[0]\<close>. The declared type of
  \<open>value\<close> is an array; a string has a length and a first character as well, and no
  other value is given either.
\<close>

fun lengthOf :: "json option \<Rightarrow> int" where
  "lengthOf (Some (JArr xs)) = int (length xs)"
| "lengthOf (Some (JStr s)) = int (length s)"
| "lengthOf v = 0"

fun firstOf :: "json option \<Rightarrow> json option" where
  "firstOf (Some (JArr (x # xs))) = Some x"
| "firstOf (Some (JStr (c # cs))) = Some (JStr [c])"
| "firstOf v = None"

definition numberNode :: "int \<Rightarrow> json" where
  "numberNode n = JObj [(''type'', JStr ''number''), (''value'', JNum n)]"

definition limitClause :: "int \<Rightarrow> int \<Rightarrow> json" where
  "limitClause fetch offset =
    JObj [(''seperator'', JStr ''offset''), (''value'', JArr [numberNode fetch, numberNode offset])]"

text \<open>
  The model's limit, as \<open>applyPagination\<close> reads it: an error, no limit (\<open>null\<close>), or the
  limit.
\<close>

definition readModelLimit :: "json \<Rightarrow> error + int option" where
  "readModelLimit limitNode =
    (case firstOf (propOf limitNode ''value'') of
       None \<Rightarrow> Inr None
     | Some v0 \<Rightarrow>
         if \<not> truthy v0 then Inr None
         else if propOf v0 ''type'' \<noteq> Some (JStr ''number'') then Inl SQL_LIMIT_NOT_NUMERIC
         else (case toInteger (propOf v0 ''value'') of
                 None \<Rightarrow> Inl SQL_LIMIT_INVALID
               | Some m \<Rightarrow> if m = 0 \<or> m \<le> 0 then Inl SQL_LIMIT_INVALID else Inr (Some m)))"

definition applyPagination ::
  "node \<Rightarrow> int \<Rightarrow> int \<Rightarrow> int \<Rightarrow> error + (node \<times> PaginationRewriteResult)" where
  "applyPagination ast page pageSize hardCap =
    (let limitNode = (case getProp ast ''limit'' of None \<Rightarrow> JNull | Some l \<Rightarrow> l) in
     if propOf limitNode ''seperator'' = Some (JStr ''offset'') \<and> lengthOf (propOf limitNode ''value'') > 1
     then Inl SQL_OFFSET_NOT_ALLOWED
     else (case readModelLimit limitNode of
             Inl e \<Rightarrow> Inl e
           | Inr modelLimit \<Rightarrow>
               (let dl = min (case modelLimit of None \<Rightarrow> pageSize | Some m \<Rightarrow> m) (min pageSize hardCap) in
                if dl \<le> 0 then Inl SQL_LIMIT_INVALID
                else
                  (let offset = (page - 1) * dl;
                       fl = dl + 1
                   in Inr (setProp ast ''limit'' (limitClause fl offset),
                           \<lparr> displayLimit = dl, fetchLimit = fl \<rparr>)))))"

section \<open>Parsing and reference resolution (src/sql/validate.ts)\<close>

text \<open>
  The parser is the library node-sql-parser. \<open>astify\<close> is a parameter of the model:
  \<open>None\<close> when it throws, otherwise the value it returns.
\<close>

definition parseSelectAst :: "(string \<Rightarrow> json option) \<Rightarrow> string \<Rightarrow> error + node" where
  "parseSelectAst astify sql =
    (case astify sql of
       None \<Rightarrow> Inl SQL_PARSE_ERROR
     | Some ast \<Rightarrow>
         (case ast of
            JArr xs \<Rightarrow> Inl SQL_MULTI_STATEMENT
          | JObj selectAst \<Rightarrow>
              if getProp selectAst ''type'' \<noteq> Some (JStr ''select'') then Inl SQL_NOT_SELECT
              else if truthyO (getProp selectAst ''with'') then Inl SQL_CTE_NOT_SUPPORTED
              else (case getProp selectAst ''into'' of
                      None \<Rightarrow> Inr selectAst
                    | Some intoV \<Rightarrow>
                        if isObject intoV \<and> truthyO (propOf intoV ''position'')
                        then Inl SQL_SELECT_INTO_NOT_ALLOWED
                        else Inr selectAst)
          | _ \<Rightarrow> Inl SQL_NOT_SELECT))"

record Aliased =
  "alias" :: string
  joinType :: "string option"

record ReferencedTable = Aliased +
  meta :: SchemaTable

record TenantTarget = Aliased +
  columnName :: string

definition ensureSupportedJoinType :: "string \<Rightarrow> error option" where
  "ensureSupportedJoinType jt =
    (let normalizedJoin = toUpperCase (trim jt) in
     if str_includes normalizedJoin ''RIGHT'' \<or> str_includes normalizedJoin ''FULL'' \<or>
        str_includes normalizedJoin ''CROSS'' \<or> str_includes normalizedJoin ''NATURAL''
     then Some SQL_JOIN_UNSUPPORTED else None)"

text \<open>The body of the loop over the \<open>FROM\<close> items.\<close>

definition resolveFromItem :: "SchemaSnapshot \<Rightarrow> json \<Rightarrow> error + ReferencedTable" where
  "resolveFromItem snapshot item =
    (if \<not> isObject item then Inl SQL_FROM_UNSUPPORTED
     else if truthyO (propOf item ''expr'') then Inl SQL_SUBQUERY_NOT_SUPPORTED
     else
       (let tableName = stringOf (propOf item ''table'');
            schemaName = stringOf (propOf item ''db'');
            jt = stringOf (propOf item ''join'')
        in case tableName of
             None \<Rightarrow> Inl SQL_TABLE_MISSING
           | Some tn \<Rightarrow>
               if tn = [] then Inl SQL_TABLE_MISSING
               else if jt \<noteq> None \<and> jt \<noteq> Some [] \<and> ensureSupportedJoinType (the jt) \<noteq> None
               then Inl SQL_JOIN_UNSUPPORTED
               else (case resolveTable snapshot tn schemaName of
                       None \<Rightarrow> Inl SQL_TABLE_UNKNOWN
                     | Some tableMeta \<Rightarrow>
                         Inr \<lparr> alias = (case stringOf (propOf item ''as'') of
                                          None \<Rightarrow> tn
                                        | Some a \<Rightarrow> if trim a \<noteq> [] then a else tn),
                               joinType = jt,
                               meta = tableMeta \<rparr>)))"

fun resolveFromItems :: "SchemaSnapshot \<Rightarrow> json list \<Rightarrow> error + ReferencedTable list" where
  "resolveFromItems snapshot [] = Inr []"
| "resolveFromItems snapshot (item # items) =
    (case resolveFromItem snapshot item of
       Inl e \<Rightarrow> Inl e
     | Inr r \<Rightarrow> (case resolveFromItems snapshot items of
                   Inl e \<Rightarrow> Inl e
                 | Inr rs \<Rightarrow> Inr (r # rs)))"

definition resolveReferencedTables :: "node \<Rightarrow> SchemaSnapshot \<Rightarrow> error + ReferencedTable list" where
  "resolveReferencedTables ast snapshot =
    (case getProp ast ''from'' of
       None \<Rightarrow> Inr []
     | Some fromV \<Rightarrow>
         if \<not> truthy fromV then Inr []
         else (case fromV of
                 JArr items \<Rightarrow> resolveFromItems snapshot items
               | _ \<Rightarrow> Inl SQL_FROM_UNSUPPORTED))"

section \<open>Column validation (src/sql/validate.ts)\<close>

definition sensitiveColumnWords :: "string list" where
  "sensitiveColumnWords =
    [''password'', ''token'', ''secret'', ''apikey'', ''api_key'', ''refresh'', ''salt'', ''hash'',
     ''credential'', ''ssn'', ''aadhaar'', ''pan'']"

text \<open>\<open>/(password|token|...|pan)/i\<close>\<close>

definition sensitiveColumnPattern :: "string \<Rightarrow> bool" where
  "sensitiveColumnPattern s = (\<exists>w \<in> set sensitiveColumnWords. str_includes (toLowerCase s) w)"

fun extractColumnName :: "json option \<Rightarrow> string option" where
  "extractColumnName (Some (JStr s)) = Some s"
| "extractColumnName (Some (JObj fs)) =
    (case map_of fs ''expr'' of
       None \<Rightarrow> None
     | Some maybeExpr \<Rightarrow>
         if isObject maybeExpr
         then (case propOf maybeExpr ''value'' of Some (JStr v) \<Rightarrow> Some v | _ \<Rightarrow> None)
         else None)"
| "extractColumnName v = None"

definition columnObject :: "string \<Rightarrow> json" where
  "columnObject c = JObj [(''expr'', JObj [(''type'', JStr ''default''), (''value'', JStr (toAstIdentifier c))])]"

definition setColumnName :: "node \<Rightarrow> string \<Rightarrow> node" where
  "setColumnName nd c = setProp nd ''column'' (columnObject c)"

text \<open>
  What the visitor of \<open>validateColumns\<close> closes over: the aliases of the select list,
  the two maps built from the referenced tables, and the referenced tables.
\<close>

record Scope =
  selectAliases :: "string list"
  aliasToTable :: "(string \<times> SchemaTable) list"
  tableNameToAliases :: "(string \<times> string list) list"
  referenced :: "ReferencedTable list"

definition selectAliasesOf :: "node \<Rightarrow> string list" where
  "selectAliasesOf ast =
    (case getProp ast ''columns'' of
       Some (JArr cols) \<Rightarrow>
         setOf (concat (map (\<lambda>col. if isObject col
                                    then (case stringOf (propOf col ''as'') of
                                            None \<Rightarrow> [] | Some a \<Rightarrow> [normalize_s a])
                                    else []) cols))
     | _ \<Rightarrow> [])"

definition makeScope :: "node \<Rightarrow> ReferencedTable list \<Rightarrow> Scope" where
  "makeScope ast referencedTables =
    \<lparr> selectAliases = selectAliasesOf ast,
      aliasToTable = foldl (\<lambda>m t. AList.update (normalize_s (alias t)) (meta t) m) [] referencedTables,
      tableNameToAliases =
        foldl (\<lambda>m t. pushTo m (normalize_s (name (meta t))) (alias t)) [] referencedTables,
      referenced = referencedTables \<rparr>"

text \<open>The table a qualifier names: an alias first, then a table name with one alias.\<close>

definition lookupQualifier :: "Scope \<Rightarrow> string \<Rightarrow> SchemaTable option" where
  "lookupQualifier sc tableToken =
    (case map_of (aliasToTable sc) tableToken of
       Some tableMeta \<Rightarrow> Some tableMeta
     | None \<Rightarrow>
         (let aliases = (case map_of (tableNameToAliases sc) tableToken of
                           None \<Rightarrow> [] | Some al \<Rightarrow> al)
          in if length aliases = 1 then map_of (aliasToTable sc) (normalize_s (hd aliases))
             else None))"

text \<open>\<open>const canonical = canonicalColumnName(...); if (canonical) setColumnName(node, canonical)\<close>\<close>

definition canonicalize :: "node \<Rightarrow> SchemaTable \<Rightarrow> string \<Rightarrow> node" where
  "canonicalize nd tableMeta cn =
    (case canonicalColumnName tableMeta cn of
       None \<Rightarrow> nd
     | Some canonical \<Rightarrow> if canonical \<noteq> [] then setColumnName nd canonical else nd)"

text \<open>
  The visitor that \<open>validateColumns\<close> passes to \<open>walk\<close>: it throws, or returns with the
  node as it is, or with the node's \<open>column\<close> replaced.
\<close>

definition columnVisitor :: "Scope \<Rightarrow> node \<Rightarrow> error + node" where
  "columnVisitor sc nd =
    (if getProp nd ''type'' = Some (JStr ''var'') then Inl SQL_PARAMETER_NOT_ALLOWED
     else if getProp nd ''type'' \<noteq> Some (JStr ''column_ref'') then Inr nd
     else
       (case extractColumnName (getProp nd ''column'') of
          None \<Rightarrow> Inl SQL_COLUMN_UNSUPPORTED
        | Some rawColumnName \<Rightarrow>
            if rawColumnName = [] then Inl SQL_COLUMN_UNSUPPORTED
            else if rawColumnName = ''*'' then Inl SQL_WILDCARD_NOT_ALLOWED
            else
              (let cn = normalize_s rawColumnName;
                   tableToken = map_option normalize_s (stringOf (getProp nd ''table''))
               in if sensitiveColumnPattern cn then Inl SQL_SENSITIVE_COLUMN
                  else if tableToken \<noteq> None \<and> tableToken \<noteq> Some []
                  then (case lookupQualifier sc (the tableToken) of
                          None \<Rightarrow> Inl SQL_TABLE_ALIAS_UNKNOWN
                        | Some tableMeta \<Rightarrow>
                            if cn \<notin> set (columnsLower tableMeta) then Inl SQL_COLUMN_UNKNOWN
                            else Inr (canonicalize nd tableMeta cn))
                  else if cn \<in> set (selectAliases sc) then Inr nd
                  else if length (referenced sc) = 0 then Inl SQL_COLUMN_NO_SOURCE
                  else
                    (let candidateTables =
                           filter (\<lambda>t. cn \<in> set (columnsLower (meta t))) (referenced sc)
                     in if length candidateTables = 0 then Inl SQL_COLUMN_UNKNOWN
                        else if length candidateTables > 1 then Inl SQL_COLUMN_AMBIGUOUS
                        else Inr (canonicalize nd (meta (hd candidateTables)) cn)))))"

text \<open>
  \<open>walk(value, visitor)\<close> with the visitor above: the visitor runs on an object first,
  then the walk goes through the values the object has after the visitor returned, in
  order. An array is walked item by item; nothing else is visited. The first error ends
  the walk. The measure \<open>weight\<close> bounds the walk: a column reference outweighs the
  \<open>column\<close> object the visitor may put into it.
\<close>

fun weight :: "json \<Rightarrow> nat" where
  "weight (JObj fs) =
    1 + sum_list (map (\<lambda>kv. Suc (weight (snd kv))) fs)
      + (if map_of fs ''type'' = Some (JStr ''column_ref'') then 6 else 0)"
| "weight (JArr xs) = 1 + sum_list (map (\<lambda>x. Suc (weight x)) xs)"
| "weight v = 0"

function walk :: "Scope \<Rightarrow> json \<Rightarrow> error + json"
  and walkItems :: "Scope \<Rightarrow> json list \<Rightarrow> error + json list"
  and walkValues :: "Scope \<Rightarrow> node \<Rightarrow> error + node"
where
  "walk sc (JObj nd) =
    (case columnVisitor sc nd of
       Inl e \<Rightarrow> Inl e
     | Inr nd' \<Rightarrow> (case walkValues sc nd' of
                     Inl e \<Rightarrow> Inl e
                   | Inr nd'' \<Rightarrow> Inr (JObj nd'')))"
| "walk sc (JArr xs) = (case walkItems sc xs of Inl e \<Rightarrow> Inl e | Inr ys \<Rightarrow> Inr (JArr ys))"
| "walk sc JNull = Inr JNull"
| "walk sc (JBool b) = Inr (JBool b)"
| "walk sc (JNum n) = Inr (JNum n)"
| "walk sc (JStr s) = Inr (JStr s)"
| "walkItems sc [] = Inr []"
| "walkItems sc (x # xs) =
    (case walk sc x of
       Inl e \<Rightarrow> Inl e
     | Inr y \<Rightarrow> (case walkItems sc xs of Inl e \<Rightarrow> Inl e | Inr ys \<Rightarrow> Inr (y # ys)))"
| "walkValues sc [] = Inr []"
| "walkValues sc (kv # kvs) =
    (case walk sc (snd kv) of
       Inl e \<Rightarrow> Inl e
     | Inr v' \<Rightarrow> (case walkValues sc kvs of
                    Inl e \<Rightarrow> Inl e
                  | Inr kvs' \<Rightarrow> Inr ((fst kv, v') # kvs')))"
  by pat_completeness auto

lemma canonicalize_result:
  "canonicalize nd tm cn = nd \<or> (\<exists>c. canonicalize nd tm cn = AList.update ''column'' (columnObject c) nd)"
  by (auto simp: canonicalize_def setColumnName_def setProp_def split: option.splits)

lemma columnVisitor_result:
  "columnVisitor sc nd = Inr nd' \<Longrightarrow>
     nd' = nd \<or> (map_of nd ''type'' = Some (JStr ''column_ref'')
                 \<and> (\<exists>c. nd' = AList.update ''column'' (columnObject c) nd))"
  using canonicalize_result
  by (auto simp: columnVisitor_def getProp_def Let_def split: if_splits option.splits)

lemma weight_columnObject: "weight (columnObject c) = 5"
  by (simp add: columnObject_def)

lemma weight_update_le:
  "sum_list (map (\<lambda>kv. Suc (weight (snd kv))) (AList.update k v fs))
     \<le> sum_list (map (\<lambda>kv. Suc (weight (snd kv))) fs) + Suc (weight v)"
  by (induction fs) auto

lemma visited_values_smaller:
  assumes "columnVisitor sc nd = Inr nd'"
  shows "sum_list (map (\<lambda>kv. Suc (weight (snd kv))) nd') < weight (JObj nd)"
proof -
  from columnVisitor_result[OF assms] show ?thesis
  proof
    assume "nd' = nd"
    then show ?thesis by simp
  next
    assume "map_of nd ''type'' = Some (JStr ''column_ref'')
              \<and> (\<exists>c. nd' = AList.update ''column'' (columnObject c) nd)"
    then obtain c where t: "map_of nd ''type'' = Some (JStr ''column_ref'')"
      and e: "nd' = AList.update ''column'' (columnObject c) nd" by blast
    show ?thesis
      using weight_update_le[of "''column''" "columnObject c" nd] t
      by (simp add: e weight_columnObject)
  qed
qed

termination walk
  apply (relation "measure (\<lambda>x. case x of
            Inl (sc, j) \<Rightarrow> weight j
          | Inr (Inl (sc, xs)) \<Rightarrow> sum_list (map (\<lambda>x. Suc (weight x)) xs)
          | Inr (Inr (sc, nd)) \<Rightarrow> sum_list (map (\<lambda>kv. Suc (weight (snd kv))) nd))")
  apply (auto dest!: visited_values_smaller)
  done

text \<open>\<open>validateColumns\<close> returns nothing; the model returns the tree as the walk left it.\<close>

definition validateColumns :: "node \<Rightarrow> ReferencedTable list \<Rightarrow> error + node" where
  "validateColumns ast referencedTables =
    (case walk (makeScope ast referencedTables) (JObj ast) of
       Inl e \<Rightarrow> Inl e
     | Inr (JObj ast') \<Rightarrow> Inr ast'
     | Inr v \<Rightarrow> Inr ast)"

section \<open>The tenant filter (src/sql/tenant-enforce.ts)\<close>

definition columnRef :: "string \<Rightarrow> string \<Rightarrow> json" where
  "columnRef tableAlias cn =
    JObj [(''type'', JStr ''column_ref''), (''table'', JStr tableAlias),
          (''column'', columnObject cn), (''collate'', JNull)]"

definition orgParamExpression :: "int \<Rightarrow> json" where
  "orgParamExpression paramIndex =
    JObj [(''type'', JStr ''var''), (''name'', JNum paramIndex), (''members'', JArr []),
          (''quoted'', JNull), (''prefix'', JStr ''$'')]"

definition eq_expr :: "json \<Rightarrow> json \<Rightarrow> json" where
  "eq_expr l r = JObj [(''type'', JStr ''binary_expr''), (''operator'', JStr ''=''), (''left'', l), (''right'', r)]"

definition and_expr :: "json \<Rightarrow> json \<Rightarrow> json" where
  "and_expr l r = JObj [(''type'', JStr ''binary_expr''), (''operator'', JStr ''AND''), (''left'', l), (''right'', r)]"

definition resolveAlias :: "json \<Rightarrow> string option" where
  "resolveAlias fromNode =
    stringOf (case stringOf (propOf fromNode ''as'') of
                None \<Rightarrow> propOf fromNode ''table''
              | Some a \<Rightarrow> if length (trim a) > 0 then Some (JStr a) else propOf fromNode ''table'')"

text \<open>
  \<open>attachToJoinOn\<close> changes the \<open>FROM\<close> item in place; only objects are ever looked up
  in \<open>fromByAlias\<close>.
\<close>

fun attachToJoinOn :: "json \<Rightarrow> json \<Rightarrow> json" where
  "attachToJoinOn (JObj fromNode) condition =
    JObj (setProp fromNode ''on''
            (case getProp fromNode ''on'' of
               None \<Rightarrow> condition
             | Some existingOn \<Rightarrow>
                 if truthy existingOn then and_expr existingOn condition else condition))"
| "attachToJoinOn v condition = v"

text \<open>
  \<open>fromByAlias\<close> maps a normalised alias to the \<open>FROM\<close> item that carries it, here to
  the item's index in \<open>ast.from\<close>; a later item with the same alias replaces an earlier.
\<close>

definition fromByAliasOf :: "json list \<Rightarrow> (string \<times> nat) list" where
  "fromByAliasOf fromNodes =
    foldl (\<lambda>m p. if \<not> isObject (snd p) then m
                  else (case resolveAlias (snd p) of
                          None \<Rightarrow> m
                        | Some a \<Rightarrow> if a = [] then m else AList.update (normalize_s a) (fst p) m))
          [] (enumerate 0 fromNodes)"

text \<open>\<open>Array.from(new Map(tenantTargets.map((t) => [t.alias.toLowerCase(), t])).values())\<close>\<close>

definition dedupeTargets :: "TenantTarget list \<Rightarrow> TenantTarget list" where
  "dedupeTargets tenantTargets =
    map snd (foldl (\<lambda>m t. AList.update (toLowerCase (alias t)) t m) [] tenantTargets)"

definition tenantCondition :: "TenantTarget \<Rightarrow> int \<Rightarrow> json" where
  "tenantCondition target paramIndex =
    eq_expr (columnRef (alias target) (columnName target)) (orgParamExpression paramIndex)"

text \<open>
  The body of the loop over the targets. The state is the \<open>FROM\<close> items and the
  conditions collected for \<open>WHERE\<close>.
\<close>

definition placeTarget ::
  "(string \<times> nat) list \<Rightarrow> int \<Rightarrow> json list \<times> json list \<Rightarrow> TenantTarget \<Rightarrow> json list \<times> json list" where
  "placeTarget fromByAlias paramIndex st target =
    (let condition = tenantCondition target paramIndex;
         jt = joinType target
     in if jt \<noteq> None \<and> jt \<noteq> Some []
        then (case map_of fromByAlias (normalize_s (alias target)) of
                Some i \<Rightarrow> ((fst st)[i := attachToJoinOn (fst st ! i) condition], snd st)
              | None \<Rightarrow> (fst st, snd st @ [condition]))
        else (fst st, snd st @ [condition]))"

definition applyTenantFilter :: "node \<Rightarrow> TenantTarget list \<Rightarrow> int \<Rightarrow> bool \<times> node" where
  "applyTenantFilter ast tenantTargets paramIndex =
    (if length tenantTargets = 0 then (False, ast)
     else
       (let fromNodes = (case getProp ast ''from'' of Some (JArr xs) \<Rightarrow> xs | _ \<Rightarrow> []);
            fromByAlias = fromByAliasOf fromNodes;
            st = foldl (placeTarget fromByAlias paramIndex) (fromNodes, []) (dedupeTargets tenantTargets);
            whereConditions = snd st;
            ast1 = (case getProp ast ''from'' of
                      Some (JArr xs) \<Rightarrow> setProp ast ''from'' (JArr (fst st))
                    | _ \<Rightarrow> ast)
        in if length whereConditions = 0 then (True, ast1)
           else
             (let combined = foldl and_expr (hd whereConditions) (tl whereConditions);
                  newWhere = (case getProp ast ''where'' of
                                None \<Rightarrow> combined
                              | Some existingWhere \<Rightarrow>
                                  if truthy existingWhere then and_expr existingWhere combined
                                  else combined)
              in (True, setProp ast1 ''where'' newWhere))))"

section \<open>The pipeline (src/sql/validate.ts)\<close>

record RewriteOutput = PaginationRewriteResult +
  sql :: string
  params :: "string list"
  referencedTables :: "string list"

definition tenantTargetsOf :: "ReferencedTable list \<Rightarrow> TenantTarget list" where
  "tenantTargetsOf refs =
    map (\<lambda>t. \<lparr> alias = alias t,
                joinType = joinType t,
                columnName = (case canonicalColumnName (meta t) ''organizationid'' of
                                None \<Rightarrow> ''organizationId'' | Some c \<Rightarrow> c) \<rparr>)
        (filter (\<lambda>t. hasOrganizationId (meta t)) refs)"

definition toReferencedTableNames :: "ReferencedTable list \<Rightarrow> string list" where
  "toReferencedTableNames ts = setOf (map (\<lambda>t. schema (meta t) @ ''.'' @ name (meta t)) ts)"

text \<open>
  \<open>validateAndRewriteSql(input)\<close>. The arguments after the parser's two functions are
  the fields of \<open>RewriteInput\<close>: \<open>sql\<close>, \<open>schemaSnapshot\<close>, \<open>orgId\<close>, \<open>page\<close>,
  \<open>pageSize\<close>, \<open>hardCap\<close>. \<open>sqlify\<close> is \<open>None\<close> when the serializer throws.
\<close>

definition validateAndRewriteSql ::
  "(string \<Rightarrow> json option) \<Rightarrow> (json \<Rightarrow> string option) \<Rightarrow>
   string \<Rightarrow> SchemaSnapshot \<Rightarrow> string \<Rightarrow> int \<Rightarrow> int \<Rightarrow> int \<Rightarrow> error + RewriteOutput" where
  "validateAndRewriteSql astify sqlify candidate schemaSnapshot orgId page pageSize hardCap =
    (let rawSql = trim candidate in
     case assertReadOnlySqlTokens rawSql of
       Some e \<Rightarrow> Inl e
     | None \<Rightarrow>
     (case parseSelectAst astify rawSql of
       Inl e \<Rightarrow> Inl e
     | Inr ast \<Rightarrow>
     (case resolveReferencedTables ast schemaSnapshot of
       Inl e \<Rightarrow> Inl e
     | Inr refs \<Rightarrow>
     (case validateColumns ast refs of
       Inl e \<Rightarrow> Inl e
     | Inr ast1 \<Rightarrow>
     (let tenantTargets = tenantTargetsOf refs;
          ast2 = (if length tenantTargets > 0 then snd (applyTenantFilter ast1 tenantTargets 1) else ast1);
          ps = (if length tenantTargets > 0 then [orgId] else [])
      in case applyPagination ast2 page pageSize hardCap of
           Inl e \<Rightarrow> Inl e
         | Inr paged \<Rightarrow>
         (case sqlify (JObj (fst paged)) of
            None \<Rightarrow> Inl SERIALIZER_EXCEPTION
          | Some rewrittenSql \<Rightarrow>
          (case assertReadOnlySqlTokens rewrittenSql of
             Some e \<Rightarrow> Inl e
           | None \<Rightarrow>
               Inr \<lparr> displayLimit = displayLimit (snd paged),
                     fetchLimit = fetchLimit (snd paged),
                     sql = rewrittenSql,
                     params = ps,
                     referencedTables = toReferencedTableNames refs \<rparr>)))))))"

section \<open>Example inputs\<close>

text \<open>The schema of the repository's tests, with a table that has no tenant key and a view in a second schema.\<close>

definition demoTableRows :: "TableRow list" where
  "demoTableRows =
    [\<lparr> table_schema = ''audit'', table_name = ''users'', table_type = ''VIEW'' \<rparr>,
     \<lparr> table_schema = ''public'', table_name = ''countries'', table_type = ''BASE TABLE'' \<rparr>,
     \<lparr> table_schema = ''public'', table_name = ''payments'', table_type = ''BASE TABLE'' \<rparr>,
     \<lparr> table_schema = ''public'', table_name = ''users'', table_type = ''BASE TABLE'' \<rparr>]"

definition demoColumnRow :: "string \<Rightarrow> string \<Rightarrow> string \<Rightarrow> int \<Rightarrow> ColumnRow" where
  "demoColumnRow s t c i = \<lparr> table_schema = s, table_name = t, column_name = c, ordinal_position = i \<rparr>"

definition demoColumnRows :: "ColumnRow list" where
  "demoColumnRows =
    [demoColumnRow ''audit'' ''users'' ''id'' 1,
     demoColumnRow ''audit'' ''users'' ''seenAt'' 2,
     demoColumnRow ''public'' ''countries'' ''code'' 1,
     demoColumnRow ''public'' ''countries'' ''label'' 2,
     demoColumnRow ''public'' ''payments'' ''id'' 1,
     demoColumnRow ''public'' ''payments'' ''userId'' 2,
     demoColumnRow ''public'' ''payments'' ''amount'' 3,
     demoColumnRow ''public'' ''payments'' ''organizationId'' 4,
     demoColumnRow ''public'' ''users'' ''id'' 1,
     demoColumnRow ''public'' ''users'' ''name'' 2,
     demoColumnRow ''public'' ''users'' ''organizationId'' 3,
     demoColumnRow ''public'' ''users'' ''password'' 4]"

definition publicUsers :: SchemaTable where
  "publicUsers =
    \<lparr> schema = ''public'', name = ''users'', key = ''public.users'', isView = False,
      columns = [''id'', ''name'', ''organizationId'', ''password''],
      columnsLower = [''id'', ''name'', ''organizationid'', ''password''],
      columnsByLower = [(''id'', ''id''), (''name'', ''name''),
                        (''organizationid'', ''organizationId''), (''password'', ''password'')],
      hasOrganizationId = True \<rparr>"

definition auditUsers :: SchemaTable where
  "auditUsers =
    \<lparr> schema = ''audit'', name = ''users'', key = ''audit.users'', isView = True,
      columns = [''id'', ''seenAt''],
      columnsLower = [''id'', ''seenat''],
      columnsByLower = [(''id'', ''id''), (''seenat'', ''seenAt'')],
      hasOrganizationId = False \<rparr>"

definition publicCountries :: SchemaTable where
  "publicCountries =
    \<lparr> schema = ''public'', name = ''countries'', key = ''public.countries'', isView = False,
      columns = [''code'', ''label''],
      columnsLower = [''code'', ''label''],
      columnsByLower = [(''code'', ''code''), (''label'', ''label'')],
      hasOrganizationId = False \<rparr>"

definition publicPayments :: SchemaTable where
  "publicPayments =
    \<lparr> schema = ''public'', name = ''payments'', key = ''public.payments'', isView = False,
      columns = [''id'', ''userId'', ''amount'', ''organizationId''],
      columnsLower = [''id'', ''userid'', ''amount'', ''organizationid''],
      columnsByLower = [(''id'', ''id''), (''userid'', ''userId''), (''amount'', ''amount''),
                        (''organizationid'', ''organizationId'')],
      hasOrganizationId = True \<rparr>"

text \<open>The snapshot that \<open>introspectSchema\<close> builds from these rows.\<close>

definition demoSnapshot :: SchemaSnapshot where
  "demoSnapshot =
    \<lparr> dialect = ''PostgreSQL'',
      refreshedAtIso = ''2024-01-01T00:00:00.000Z'',
      tables = [auditUsers, publicCountries, publicPayments, publicUsers],
      byKey = [(''audit.users'', auditUsers), (''public.countries'', publicCountries),
               (''public.payments'', publicPayments), (''public.users'', publicUsers)],
      byName = [(''users'', [auditUsers, publicUsers]), (''countries'', [publicCountries]),
                (''payments'', [publicPayments])] \<rparr>"

text \<open>A table with two columns whose names differ in case only.\<close>

definition collidingColumnRows :: "ColumnRow list" where
  "collidingColumnRows =
    [demoColumnRow ''public'' ''countries'' ''Id'' 1, demoColumnRow ''public'' ''countries'' ''id'' 2]"

text \<open>Trees as the parser gives them.\<close>

definition parsedColumn :: "string \<Rightarrow> string \<Rightarrow> json" where
  "parsedColumn t c =
    JObj [(''type'', JStr ''column_ref''), (''table'', JStr t),
          (''column'', JObj [(''expr'', JObj [(''type'', JStr ''default''), (''value'', JStr c)])]),
          (''collate'', JNull)]"

definition parsedItem :: "json \<Rightarrow> json" where
  "parsedItem e = JObj [(''type'', JStr ''expr''), (''expr'', e), (''as'', JNull)]"

definition parsedSelect :: "json list \<Rightarrow> json \<Rightarrow> json \<Rightarrow> json \<Rightarrow> node" where
  "parsedSelect cols fromV whereV limitV =
    [(''with'', JNull), (''type'', JStr ''select''), (''options'', JNull),
     (''distinct'', JObj [(''type'', JNull)]), (''columns'', JArr cols),
     (''into'', JObj [(''position'', JNull)]), (''from'', fromV), (''where'', whereV),
     (''groupby'', JNull), (''having'', JNull), (''orderby'', JNull), (''limit'', limitV),
     (''window'', JNull)]"

definition noLimit :: json where
  "noLimit = JObj [(''seperator'', JStr []), (''value'', JArr [])]"

definition fromTable :: "string \<Rightarrow> string \<Rightarrow> json" where
  "fromTable t a = JObj [(''db'', JNull), (''table'', JStr t), (''as'', JStr a)]"

definition joinTable :: "string \<Rightarrow> string \<Rightarrow> string \<Rightarrow> json \<Rightarrow> json" where
  "joinTable t a j onV =
    JObj [(''db'', JNull), (''table'', JStr t), (''as'', JStr a), (''join'', JStr j), (''on'', onV)]"

text \<open>\<open>SELECT u.id FROM users u\<close> and the tree and text it is rewritten to.\<close>

definition usersQuery :: node where
  "usersQuery = parsedSelect [parsedItem (parsedColumn ''u'' ''id'')] (JArr [fromTable ''users'' ''u'']) JNull noLimit"

definition usersRewritten :: node where
  "usersRewritten =
    parsedSelect [parsedItem (columnRef ''u'' ''id'')] (JArr [fromTable ''users'' ''u''])
      (eq_expr (columnRef ''u'' ''organizationId'') (orgParamExpression 1)) (limitClause 26 0)"

definition usersRewrittenSql :: string where
  "usersRewrittenSql = ''SELECT \"u\".\"id\" FROM \"users\" AS \"u\" WHERE \"u\".\"organizationId\" = $1 LIMIT 26 OFFSET 0''"

text \<open>\<open>SELECT c.code FROM countries c\<close>\<close>

definition countriesQuery :: node where
  "countriesQuery = parsedSelect [parsedItem (parsedColumn ''c'' ''code'')] (JArr [fromTable ''countries'' ''c'']) JNull noLimit"

definition countriesRewritten :: node where
  "countriesRewritten =
    parsedSelect [parsedItem (columnRef ''c'' ''code'')] (JArr [fromTable ''countries'' ''c'']) JNull (limitClause 26 0)"

definition countriesRewrittenSql :: string where
  "countriesRewrittenSql = ''SELECT \"c\".\"code\" FROM \"countries\" AS \"c\" LIMIT 26 OFFSET 0''"

text \<open>\<open>SELECT 1\<close>\<close>

definition selectOne :: node where
  "selectOne = parsedSelect [parsedItem (numberNode 1)] JNull JNull noLimit"

definition selectOneRewritten :: node where
  "selectOneRewritten = parsedSelect [parsedItem (numberNode 1)] JNull JNull (limitClause 26 0)"

text \<open>
  A parser and a serializer given by their tables for these texts and trees: what
  node-sql-parser does on them, and an exception everywhere else.
\<close>

definition demoAstify :: "string \<Rightarrow> json option" where
  "demoAstify = map_of
    [(''SELECT u.id FROM users u'', JObj usersQuery),
     (''SELECT c.code FROM countries c'', JObj countriesQuery),
     (''SELECT 1'', JObj selectOne),
     (usersRewrittenSql, JObj usersRewritten),
     (countriesRewrittenSql, JObj countriesRewritten),
     (''SELECT 1 LIMIT 26 OFFSET 0'', JObj selectOneRewritten)]"

definition demoSqlify :: "json \<Rightarrow> string option" where
  "demoSqlify = map_of
    [(JObj usersRewritten, usersRewrittenSql),
     (JObj countriesRewritten, countriesRewrittenSql),
     (JObj selectOneRewritten, ''SELECT 1 LIMIT 26 OFFSET 0'')]"



section \<open>Schema lookup\<close>

lemma find_None_conv: "(find P xs = None) = (\<forall>x \<in> set xs. \<not> P x)"
  by (induction xs) auto

text \<open>
  Claim C8. \<open>resolveTable(snapshot, name, schema)\<close>: with a (non-empty) schema the
  result is the entry of \<open>byKey\<close> under the composite key \<open>schema.table\<close> of the
  normalised names, or nothing. Without a schema the tables listed in \<open>byName\<close> under
  the normalised bare name decide: none gives nothing, exactly one gives that table, and
  several give the first whose normalised schema is \<open>public\<close>, or nothing when there is
  none. An empty schema string counts as no schema.
\<close>

theorem resolveTable_spec:
  assumes "candidates = (case map_of (byName snapshot) (normalize_s tableName) of Some cs \<Rightarrow> cs | None \<Rightarrow> [])"
  shows "(s \<noteq> [] \<longrightarrow>
            resolveTable snapshot tableName (Some s)
              = map_of (byKey snapshot) (normalize_s s @ ''.'' @ normalize_s tableName))
       \<and> (length candidates = 0 \<longrightarrow> resolveTable snapshot tableName None = None)
       \<and> (length candidates = 1 \<longrightarrow> resolveTable snapshot tableName None = Some (hd candidates))
       \<and> (length candidates > 1 \<longrightarrow>
            (case resolveTable snapshot tableName None of
               None \<Rightarrow> \<forall>c \<in> set candidates. normalize_s (schema c) \<noteq> ''public''
             | Some t \<Rightarrow> \<exists>i < length candidates. t = candidates ! i
                          \<and> normalize_s (schema t) = ''public''
                          \<and> (\<forall>j < i. normalize_s (schema (candidates ! j)) \<noteq> ''public'')))
       \<and> resolveTable snapshot tableName (Some []) = resolveTable snapshot tableName None"
  using assms
  by (auto simp: resolveTable_def Let_def find_None_conv find_Some_iff split: option.splits)

lemma demo_byName: "map_of (byName demoSnapshot) (normalize_s ''Users'') = Some [auditUsers, publicUsers]"
  by code_simp

theorem resolveTable_spec_witness:
  "resolveTable demoSnapshot ''Users'' (Some ''AUDIT'') = Some auditUsers
   \<and> resolveTable demoSnapshot ''Users'' None = Some publicUsers
   \<and> resolveTable demoSnapshot ''Users'' (Some []) = Some publicUsers"
proof -
  have c: "[auditUsers, publicUsers] = (case map_of (byName demoSnapshot) (normalize_s ''Users'') of Some cs \<Rightarrow> cs | None \<Rightarrow> [])"
    by (simp add: demo_byName)
  have k: "map_of (byKey demoSnapshot) (normalize_s ''AUDIT'' @ ''.'' @ normalize_s ''Users'') = Some auditUsers"
    by code_simp
  have p: "normalize_s (schema auditUsers) \<noteq> ''public''" "normalize_s (schema publicUsers) = ''public''"
    by code_simp+
  from resolveTable_spec[OF c, of "''AUDIT''"] k p show ?thesis
    by (auto split: option.splits simp: less_Suc_eq nth_Cons')
qed


section \<open>The guard on the rewritten text\<close>

lemma str_includes_iff: "str_includes s sub \<longleftrightarrow> (\<exists>pre post. s = pre @ sub @ post)"
proof (induction s)
  case Nil
  then show ?case by auto
next
  case (Cons c cs)
  show ?case
  proof
    assume "str_includes (c # cs) sub"
    then consider "prefix sub (c # cs)" | "str_includes cs sub" by auto
    then show "\<exists>pre post. c # cs = pre @ sub @ post"
    proof cases
      case 1
      then obtain post where "c # cs = sub @ post" by (auto simp: prefix_def)
      then have "c # cs = [] @ sub @ post" by simp
      then show ?thesis by blast
    next
      case 2
      with Cons.IH obtain pre post where "cs = pre @ sub @ post" by blast
      then have "c # cs = (c # pre) @ sub @ post" by simp
      then show ?thesis by blast
    qed
  next
    assume "\<exists>pre post. c # cs = pre @ sub @ post"
    then obtain pre post where e: "c # cs = pre @ sub @ post" by blast
    show "str_includes (c # cs) sub"
    proof (cases pre)
      case Nil
      with e have "prefix sub (c # cs)" by (simp add: prefix_def)
      then show ?thesis by simp
    next
      case (Cons a pre')
      with e have "cs = pre' @ sub @ post" by simp
      with Cons.IH show ?thesis by auto
    qed
  qed
qed

lemma scanFrom_iff:
  "scanFrom here p s \<longleftrightarrow>
     (\<exists>pre r. s = pre @ r \<and> r \<noteq> [] \<and> here r \<and> \<not> (if pre = [] then p else isWordChar (last pre)))"
proof (induction s arbitrary: p)
  case Nil
  then show ?case by simp
next
  case (Cons c cs)
  show ?case
  proof
    assume "scanFrom here p (c # cs)"
    then consider "\<not> p \<and> here (c # cs)" | "scanFrom here (isWordChar c) cs"
      by (auto split: if_splits)
    then show "\<exists>pre r. c # cs = pre @ r \<and> r \<noteq> [] \<and> here r \<and> \<not> (if pre = [] then p else isWordChar (last pre))"
    proof cases
      case 1
      then have "c # cs = [] @ (c # cs) \<and> c # cs \<noteq> [] \<and> here (c # cs) \<and> \<not> (if ([]::string) = [] then p else isWordChar (last []))"
        by simp
      then show ?thesis by blast
    next
      case 2
      with Cons.IH[of "isWordChar c"] obtain pre r where
        h: "cs = pre @ r" "r \<noteq> []" "here r" "\<not> (if pre = [] then isWordChar c else isWordChar (last pre))"
        by blast
      then have "c # cs = (c # pre) @ r \<and> r \<noteq> [] \<and> here r \<and> \<not> (if c # pre = [] then p else isWordChar (last (c # pre)))"
        by auto
      then show ?thesis by blast
    qed
  next
    assume "\<exists>pre r. c # cs = pre @ r \<and> r \<noteq> [] \<and> here r \<and> \<not> (if pre = [] then p else isWordChar (last pre))"
    then obtain pre r where
      h: "c # cs = pre @ r" "r \<noteq> []" "here r" "\<not> (if pre = [] then p else isWordChar (last pre))"
      by blast
    show "scanFrom here p (c # cs)"
    proof (cases pre)
      case Nil
      with h show ?thesis by auto
    next
      case (Cons a pre')
      with h have "cs = pre' @ r \<and> r \<noteq> [] \<and> here r \<and> \<not> (if pre' = [] then isWordChar c else isWordChar (last pre'))"
        by auto
      then have "scanFrom here (isWordChar c) cs" using Cons.IH[of "isWordChar c"] by blast
      then show ?thesis by simp
    qed
  qed
qed

lemma isWordChar_lower: "isWordChar (lower_char c) = isWordChar c"
proof (cases "map_of (zip ''ABCDEFGHIJKLMNOPQRSTUVWXYZ'' ''abcdefghijklmnopqrstuvwxyz'') c")
  case None
  then show ?thesis by (simp add: lower_char_def)
next
  case (Some l)
  then have "(c, l) \<in> set (zip ''ABCDEFGHIJKLMNOPQRSTUVWXYZ'' ''abcdefghijklmnopqrstuvwxyz'')"
    by (rule map_of_SomeD)
  then have "isWordChar c \<and> isWordChar l"
    by (auto simp: isWordChar_def isUpper_def isLower_def)
  with Some show ?thesis by (simp add: lower_char_def)
qed

lemma keyword_here_iff:
  "(if prefix kw r then boundaryAt (drop (length kw) r) else False) \<longleftrightarrow>
     (\<exists>post. r = kw @ post \<and> (post = [] \<or> \<not> isWordChar (hd post)))"
  by (auto simp: prefix_def boundaryAt_def split: list.splits)

lemma disallowedKeywords_nonempty: "kw \<in> set disallowedKeywords \<Longrightarrow> kw \<noteq> []"
  by (auto simp: disallowedKeywords_def)

lemma disallowedKeywordPattern_iff:
  "disallowedKeywordPattern s \<longleftrightarrow>
     (\<exists>pre w post. s = pre @ w @ post \<and> toLowerCase w \<in> set disallowedKeywords
        \<and> (pre = [] \<or> \<not> isWordChar (last pre)) \<and> (post = [] \<or> \<not> isWordChar (hd post)))"
proof
  assume "disallowedKeywordPattern s"
  then obtain pre' r' where h0: "toLowerCase s = pre' @ r'"
      "\<exists>kw \<in> set disallowedKeywords. if prefix kw r' then boundaryAt (drop (length kw) r') else False"
      "\<not> (if pre' = [] then False else isWordChar (last pre'))"
    unfolding disallowedKeywordPattern_def scanFrom_iff by blast
  then obtain kw post' where h: "kw \<in> set disallowedKeywords" "r' = kw @ post'"
      "post' = [] \<or> \<not> isWordChar (hd post')"
    unfolding keyword_here_iff by blast
  from h0(1) h(2) have "map lower_char s = pre' @ kw @ post'" by (simp add: toLowerCase_def)
  then obtain pre vs where d1: "s = pre @ vs" "pre' = map lower_char pre"
      "kw @ post' = map lower_char vs"
    by (auto simp: map_eq_append_conv)
  from d1(3) obtain w post where d2: "vs = w @ post" "kw = map lower_char w"
      "post' = map lower_char post"
    by (auto simp: append_eq_map_conv)
  from d1 d2 have d: "s = pre @ w @ post" "pre' = map lower_char pre"
      "kw = map lower_char w" "post' = map lower_char post"
    by simp_all
  have b1: "pre = [] \<or> \<not> isWordChar (last pre)"
    using h0(3) d(2) by (cases "pre = []") (auto simp: last_map isWordChar_lower)
  have b2: "post = [] \<or> \<not> isWordChar (hd post)"
    using h(3) d(4) by (cases post) (auto simp: isWordChar_lower)
  from d h(1) b1 b2 show "\<exists>pre w post. s = pre @ w @ post \<and> toLowerCase w \<in> set disallowedKeywords
        \<and> (pre = [] \<or> \<not> isWordChar (last pre)) \<and> (post = [] \<or> \<not> isWordChar (hd post))"
    unfolding toLowerCase_def by blast
next
  assume "\<exists>pre w post. s = pre @ w @ post \<and> toLowerCase w \<in> set disallowedKeywords
        \<and> (pre = [] \<or> \<not> isWordChar (last pre)) \<and> (post = [] \<or> \<not> isWordChar (hd post))"
  then obtain pre w post where h: "s = pre @ w @ post" "toLowerCase w \<in> set disallowedKeywords"
     "pre = [] \<or> \<not> isWordChar (last pre)" "post = [] \<or> \<not> isWordChar (hd post)" by blast
  let ?r = "toLowerCase w @ toLowerCase post"
  have ne: "?r \<noteq> []" using disallowedKeywords_nonempty[OF h(2)] by simp
  have b2: "toLowerCase post = [] \<or> \<not> isWordChar (hd (toLowerCase post))"
    using h(4) by (cases post) (auto simp: toLowerCase_def isWordChar_lower)
  have here: "\<exists>kw \<in> set disallowedKeywords. if prefix kw ?r then boundaryAt (drop (length kw) ?r) else False"
    unfolding keyword_here_iff using h(2) b2 by blast
  have b1: "\<not> (if toLowerCase pre = [] then False else isWordChar (last (toLowerCase pre)))"
    using h(3) by (cases "pre = []") (auto simp: toLowerCase_def last_map isWordChar_lower)
  have e: "toLowerCase s = toLowerCase pre @ ?r" using h(1) by (simp add: toLowerCase_def)
  show "disallowedKeywordPattern s"
    unfolding disallowedKeywordPattern_def scanFrom_iff
    using e ne here b1 by blast
qed

lemma guard_passes:
  assumes "assertReadOnlySqlTokens s = None"
  shows "\<not> str_includes s '';''" "\<not> sqlCommentPattern s" "\<not> disallowedKeywordPattern s"
        "\<not> rowLockPattern s" "\<not> sideEffectFunctionPattern s"
  using assms by (auto simp: assertReadOnlySqlTokens_def split: if_splits)

lemma accepted_guarded:
  "validateAndRewriteSql astify sqlify candidate snapshot orgId page pageSize hardCap = Inr out
     \<Longrightarrow> assertReadOnlySqlTokens (sql out) = None"
  by (auto simp: validateAndRewriteSql_def Let_def split: option.splits sum.splits)

text \<open>
  Claim C3. Whenever the pipeline accepts a candidate, the text it returns passed
  \<open>assertReadOnlySqlTokens\<close> after serialization: it holds no \<open>;\<close>, no \<open>--\<close>, no
  \<open>/*\<close>, and no keyword of the guard's list standing as a word of its own (compared
  without case, between word boundaries).
\<close>

theorem output_passes_guard:
  assumes "validateAndRewriteSql astify sqlify candidate snapshot orgId page pageSize hardCap = Inr out"
  shows "assertReadOnlySqlTokens (sql out) = None
     \<and> CHR '';'' \<notin> set (sql out)
     \<and> \<not> (\<exists>pre post. sql out = pre @ ''--'' @ post)
     \<and> \<not> (\<exists>pre post. sql out = pre @ ''/*'' @ post)
     \<and> \<not> (\<exists>pre w post. sql out = pre @ w @ post \<and> toLowerCase w \<in> set disallowedKeywords
              \<and> (pre = [] \<or> \<not> isWordChar (last pre)) \<and> (post = [] \<or> \<not> isWordChar (hd post)))"
proof -
  have g: "assertReadOnlySqlTokens (sql out) = None" using assms by (rule accepted_guarded)
  have semi: "CHR '';'' \<notin> set (sql out)"
  proof
    assume "CHR '';'' \<in> set (sql out)"
    then obtain pre post where "sql out = pre @ CHR '';'' # post" by (auto simp: in_set_conv_decomp)
    then have "sql out = pre @ '';'' @ post" by simp
    then have "str_includes (sql out) '';''" unfolding str_includes_iff by blast
    with guard_passes(1)[OF g] show False by simp
  qed
  have com: "\<not> (\<exists>pre post. sql out = pre @ ''--'' @ post)" "\<not> (\<exists>pre post. sql out = pre @ ''/*'' @ post)"
    using guard_passes(2)[OF g] unfolding sqlCommentPattern_def str_includes_iff by auto
  have kw: "\<not> (\<exists>pre w post. sql out = pre @ w @ post \<and> toLowerCase w \<in> set disallowedKeywords
              \<and> (pre = [] \<or> \<not> isWordChar (last pre)) \<and> (post = [] \<or> \<not> isWordChar (hd post)))"
    using guard_passes(3)[OF g] unfolding disallowedKeywordPattern_iff by simp
  from g semi com kw show ?thesis by simp
qed

lemma users_accepted:
  "validateAndRewriteSql demoAstify demoSqlify ''SELECT u.id FROM users u'' demoSnapshot ''org_1'' 1 25 100
  = Inr \<lparr>displayLimit = 25, fetchLimit = 26, sql = usersRewrittenSql, params = [''org_1''], referencedTables = [''public.users'']\<rparr>"
  by code_simp

theorem output_passes_guard_witness:
  "assertReadOnlySqlTokens usersRewrittenSql = None
     \<and> CHR '';'' \<notin> set usersRewrittenSql
     \<and> \<not> (\<exists>pre post. usersRewrittenSql = pre @ ''--'' @ post)
     \<and> \<not> (\<exists>pre post. usersRewrittenSql = pre @ ''/*'' @ post)
     \<and> \<not> (\<exists>pre w post. usersRewrittenSql = pre @ w @ post \<and> toLowerCase w \<in> set disallowedKeywords
              \<and> (pre = [] \<or> \<not> isWordChar (last pre)) \<and> (post = [] \<or> \<not> isWordChar (hd post)))"
  using output_passes_guard[OF users_accepted] by simp



end
